theory Spec2Isabelle
  imports
    Main
    "HOL-Library.Log_Nat"
    "HOL-Library.Char_ord"
    "HOL-Library.List_Lexorder"
    "HOL-Library.Product_Lexorder"
begin

section \<open>Workout Logger: payload validation and the workout store\<close>

text \<open>
  A shallow embedding of \<^verbatim>\<open>src/app.py\<close>: the validator
  \<^verbatim>\<open>validate_workout_payload\<close> with its helper \<^verbatim>\<open>_parse_iso_date\<close>, and the
  store operations \<^verbatim>\<open>list_workouts\<close>, \<^verbatim>\<open>get_workout\<close>, \<^verbatim>\<open>create_workout\<close>,
  \<^verbatim>\<open>update_workout\<close> and \<^verbatim>\<open>delete_workout\<close> over the three tables of
  \<^verbatim>\<open>init_db\<close>.

  Conventions of the model.
  \<^item> A payload is a JSON value as \<^verbatim>\<open>json.loads\<close> builds it. A Python \<^verbatim>\<open>str\<close> is a
    \<open>string\<close> whose characters are the code points below 256; a \<^verbatim>\<open>dict\<close> is an
    association list with distinct keys, read with \<open>map_of\<close>.
  \<^item> A Python \<^verbatim>\<open>float\<close> is a rational, an infinity or NaN. Finite values are not
    restricted to the binary64 grid (every double is one of them); the conversion of an
    \<^verbatim>\<open>int\<close> rounds to 53 bits, ties to even, as CPython does.
  \<^item> Every exception the source can raise is a value of \<open>py_error\<close>, the left summand
    of the result.
  \<^item> The conversions of the Python runtime from text, \<^verbatim>\<open>int(str)\<close>,
    \<^verbatim>\<open>float(str)\<close>, and \<^verbatim>\<open>str(x)\<close> of a value that is not a \<^verbatim>\<open>str\<close>, are
    parameters (\<open>builtins\<close>): the theorems hold for whatever they compute.
\<close>

subsection \<open>Python values\<close>

datatype py_error =
  AttributeError | TypeError | ValueError | OverflowError | KeyError
  | IntegrityError | OperationalError

datatype pyfloat = Finite rat | PInf | NInf | NaN

datatype json =
  JNull
  | JBool bool
  | JInt int
  | JFloat pyfloat
  | JStr string
  | JList "json list"
  | JDict "(string \<times> json) list"

record builtins =
  int_of_str :: "string \<Rightarrow> int option"
  float_of_str :: "string \<Rightarrow> pyfloat option"
  str_of_value :: "json \<Rightarrow> string"

text \<open>\<^verbatim>\<open>bool(x)\<close>, and \<^verbatim>\<open>x or y\<close>.\<close>

fun truthy :: "json \<Rightarrow> bool" where
  "truthy JNull = False"
| "truthy (JBool b) = b"
| "truthy (JInt n) = (n \<noteq> 0)"
| "truthy (JFloat f) = (f \<noteq> Finite 0)"
| "truthy (JStr s) = (s \<noteq> [])"
| "truthy (JList xs) = (xs \<noteq> [])"
| "truthy (JDict kvs) = (kvs \<noteq> [])"

definition py_or :: "json \<Rightarrow> json \<Rightarrow> json" where
  "py_or x y = (if truthy x then x else y)"

text \<open>\<^verbatim>\<open>d.get(k)\<close> (None when the key is missing) and \<^verbatim>\<open>x[k]\<close> with a string key.\<close>

definition dict_get :: "(string \<times> json) list \<Rightarrow> string \<Rightarrow> json" where
  "dict_get kvs k = (case map_of kvs k of None \<Rightarrow> JNull | Some v \<Rightarrow> v)"

fun py_getitem :: "json \<Rightarrow> string \<Rightarrow> py_error + json" where
  "py_getitem (JDict kvs) k = (case map_of kvs k of None \<Rightarrow> Inl KeyError | Some v \<Rightarrow> Inr v)"
| "py_getitem _ k = Inl TypeError"

text \<open>Iteration, as \<^verbatim>\<open>enumerate(x, start=1)\<close> sees its argument.\<close>

fun py_iter :: "json \<Rightarrow> py_error + json list" where
  "py_iter (JList xs) = Inr xs"
| "py_iter (JStr s) = Inr (map (\<lambda>c. JStr [c]) s)"
| "py_iter (JDict kvs) = Inr (map (\<lambda>kv. JStr (fst kv)) kvs)"
| "py_iter _ = Inl TypeError"

text \<open>\<^verbatim>\<open>str(x)\<close>.\<close>

fun py_str :: "builtins \<Rightarrow> json \<Rightarrow> string" where
  "py_str B (JStr s) = s"
| "py_str B v = str_of_value B v"

text \<open>\<^verbatim>\<open>int(x)\<close>: truncation toward zero on a float.\<close>

definition trunc_rat :: "rat \<Rightarrow> int" where
  "trunc_rat r = (if 0 \<le> r then \<lfloor>r\<rfloor> else \<lceil>r\<rceil>)"

fun py_int :: "builtins \<Rightarrow> json \<Rightarrow> py_error + int" where
  "py_int B JNull = Inl TypeError"
| "py_int B (JBool b) = Inr (if b then 1 else 0)"
| "py_int B (JInt n) = Inr n"
| "py_int B (JFloat (Finite r)) = Inr (trunc_rat r)"
| "py_int B (JFloat PInf) = Inl OverflowError"
| "py_int B (JFloat NInf) = Inl OverflowError"
| "py_int B (JFloat NaN) = Inl ValueError"
| "py_int B (JStr s) = (case int_of_str B s of None \<Rightarrow> Inl ValueError | Some n \<Rightarrow> Inr n)"
| "py_int B (JList xs) = Inl TypeError"
| "py_int B (JDict kvs) = Inl TypeError"

text \<open>
  \<^verbatim>\<open>float(x)\<close>. An \<^verbatim>\<open>int\<close> is rounded to the nearest value with 53 significant
  bits, ties to even; a result of \<open>2 ^ 1024\<close> or more is an OverflowError.
\<close>

definition round_to_double :: "nat \<Rightarrow> nat" where
  "round_to_double m =
     (let b = floorlog 2 m in
      if b \<le> 53 then m
      else
        let sh = b - 53;
            q = m div 2 ^ sh;
            r = m mod 2 ^ sh;
            h = 2 ^ (sh - 1)
        in (if h < r \<or> (r = h \<and> odd q) then q + 1 else q) * 2 ^ sh)"

definition float_of_int :: "int \<Rightarrow> py_error + pyfloat" where
  "float_of_int n =
     (let m = round_to_double (nat \<bar>n\<bar>) in
      if 2 ^ 1024 \<le> m then Inl OverflowError
      else Inr (Finite (of_int (sgn n * int m))))"

fun py_float :: "builtins \<Rightarrow> json \<Rightarrow> py_error + pyfloat" where
  "py_float B JNull = Inl TypeError"
| "py_float B (JBool b) = Inr (Finite (if b then 1 else 0))"
| "py_float B (JInt n) = float_of_int n"
| "py_float B (JFloat f) = Inr f"
| "py_float B (JStr s) = (case float_of_str B s of None \<Rightarrow> Inl ValueError | Some f \<Rightarrow> Inr f)"
| "py_float B (JList xs) = Inl TypeError"
| "py_float B (JDict kvs) = Inl TypeError"

text \<open>Comparisons of a float with the literals of the source; NaN compares false.\<close>

fun float_neg :: "pyfloat \<Rightarrow> bool" where
  "float_neg (Finite r) = (r < 0)"
| "float_neg NInf = True"
| "float_neg PInf = False"
| "float_neg NaN = False"

subsection \<open>Strings\<close>

text \<open>\<^verbatim>\<open>str.isspace\<close> on the code points below 256, and \<^verbatim>\<open>str.strip()\<close>.\<close>

definition is_space :: "char \<Rightarrow> bool" where
  "is_space c = ((of_char c :: nat) \<in> {9, 10, 11, 12, 13, 28, 29, 30, 31, 32, 133, 160})"

definition strip :: "string \<Rightarrow> string" where
  "strip s = rev (dropWhile is_space (rev (dropWhile is_space s)))"

text \<open>Decimal formatting of a non-negative integer, as an f-string prints it.\<close>

definition digit_char :: "nat \<Rightarrow> char" where
  "digit_char n = char_of (48 + n)"

fun show_nat :: "nat \<Rightarrow> string" where
  "show_nat n = (if n < 10 then [digit_char n] else show_nat (n div 10) @ [digit_char (n mod 10)])"

declare show_nat.simps [simp del]

definition pad_left :: "nat \<Rightarrow> string \<Rightarrow> string" where
  "pad_left w s = replicate (w - length s) (CHR ''0'') @ s"

subsection \<open>Dates\<close>

text \<open>
  \<^verbatim>\<open>datetime.strptime(value, "%Y-%m-%d")\<close> matches the regular expression
  \<^verbatim>\<open>(\d\d\d\d)-(1[0-2]|0[1-9]|[1-9])-(3[01]|[12]\d|0[1-9]|[1-9]| [1-9])\<close>
  from the start of the text, the first alternative that matches winning, rejects text
  left over, and then builds a \<^verbatim>\<open>date\<close>, which checks the year and the day of the
  month.
\<close>

definition is_digit :: "char \<Rightarrow> bool" where
  "is_digit c = (c \<in> set ''0123456789'')"

definition digit_val :: "char \<Rightarrow> nat" where
  "digit_val c = of_char c - 48"

fun match_year :: "string \<Rightarrow> (nat \<times> string) option" where
  "match_year (a # b # c # d # r) =
     (if is_digit a \<and> is_digit b \<and> is_digit c \<and> is_digit d
      then Some (1000 * digit_val a + 100 * digit_val b + 10 * digit_val c + digit_val d, r)
      else None)"
| "match_year _ = None"

fun match_dash :: "string \<Rightarrow> string option" where
  "match_dash (c # r) = (if c = CHR ''-'' then Some r else None)"
| "match_dash [] = None"

fun match_month :: "string \<Rightarrow> (nat \<times> string) option" where
  "match_month (a # b # r) =
     (if a = CHR ''1'' \<and> b \<in> set ''012'' then Some (10 + digit_val b, r)
      else if a = CHR ''0'' \<and> b \<in> set ''123456789'' then Some (digit_val b, r)
      else if a \<in> set ''123456789'' then Some (digit_val a, b # r)
      else None)"
| "match_month [a] = (if a \<in> set ''123456789'' then Some (digit_val a, []) else None)"
| "match_month [] = None"

fun match_day :: "string \<Rightarrow> (nat \<times> string) option" where
  "match_day (a # b # r) =
     (if a = CHR ''3'' \<and> b \<in> set ''01'' then Some (30 + digit_val b, r)
      else if a \<in> set ''12'' \<and> is_digit b then Some (10 * digit_val a + digit_val b, r)
      else if a = CHR ''0'' \<and> b \<in> set ''123456789'' then Some (digit_val b, r)
      else if a \<in> set ''123456789'' then Some (digit_val a, b # r)
      else if a = CHR '' '' \<and> b \<in> set ''123456789'' then Some (digit_val b, r)
      else None)"
| "match_day [a] = (if a \<in> set ''123456789'' then Some (digit_val a, []) else None)"
| "match_day [] = None"

definition is_leap :: "nat \<Rightarrow> bool" where
  "is_leap y = (y mod 4 = 0 \<and> (y mod 100 \<noteq> 0 \<or> y mod 400 = 0))"

definition days_in_month :: "nat \<Rightarrow> nat \<Rightarrow> nat" where
  "days_in_month y m =
     (if m = 2 then (if is_leap y then 29 else 28)
      else if m \<in> {4, 6, 9, 11} then 30 else 31)"

definition isoformat :: "nat \<Rightarrow> nat \<Rightarrow> nat \<Rightarrow> string" where
  "isoformat y m d =
     pad_left 4 (show_nat y) @ ''-'' @ pad_left 2 (show_nat m) @ ''-'' @ pad_left 2 (show_nat d)"

text \<open>The \<^verbatim>\<open>try\<close> block of \<^verbatim>\<open>_parse_iso_date\<close>; None is the ValueError.\<close>

definition strptime_ymd :: "string \<Rightarrow> string option" where
  "strptime_ymd v =
     (case match_year v of None \<Rightarrow> None | Some (y, r1) \<Rightarrow>
      case match_dash r1 of None \<Rightarrow> None | Some r2 \<Rightarrow>
      case match_month r2 of None \<Rightarrow> None | Some (m, r3) \<Rightarrow>
      case match_dash r3 of None \<Rightarrow> None | Some r4 \<Rightarrow>
      case match_day r4 of None \<Rightarrow> None | Some (d, r5) \<Rightarrow>
        if r5 \<noteq> [] then None
        else if y < 1 \<or> days_in_month y m < d then None
        else Some (isoformat y m d))"

fun parse_iso_date :: "json \<Rightarrow> string option" where
  "parse_iso_date (JStr s) = (let v = strip s in if v = [] then None else strptime_ymd v)"
| "parse_iso_date _ = None"

subsection \<open>The validator\<close>

text \<open>The two \<^verbatim>\<open>try\<close> blocks: TypeError and ValueError become None, anything else propagates.\<close>

definition try_int :: "builtins \<Rightarrow> json \<Rightarrow> py_error + int option" where
  "try_int B v =
     (case py_int B v of
        Inr n \<Rightarrow> Inr (Some n)
      | Inl e \<Rightarrow> if e = TypeError \<or> e = ValueError then Inr None else Inl e)"

definition try_float :: "builtins \<Rightarrow> json \<Rightarrow> py_error + pyfloat option" where
  "try_float B v =
     (case py_float B v of
        Inr f \<Rightarrow> Inr (Some f)
      | Inl e \<Rightarrow> if e = TypeError \<or> e = ValueError then Inr None else Inl e)"

definition quoted :: "string \<Rightarrow> string" where
  "quoted s = [CHR 0x27] @ s @ [CHR 0x27]"

definition reps_error :: "string \<Rightarrow> nat \<Rightarrow> string" where
  "reps_error label si =
     ''Exercise '' @ quoted label @ '' set #'' @ show_nat (si + 1) @ '': reps must be >= 1.''"

definition weight_error :: "string \<Rightarrow> nat \<Rightarrow> string" where
  "weight_error label si =
     ''Exercise '' @ quoted label @ '' set #'' @ show_nat (si + 1) @ '': weight must be >= 0.''"

definition set_invalid_error :: "string \<Rightarrow> nat \<Rightarrow> string" where
  "set_invalid_error label si =
     ''Exercise '' @ quoted label @ '' set #'' @ show_nat (si + 1) @ '' is invalid.''"

text \<open>
  The body of the inner loop for the set at 0-based index \<open>si\<close>; \<open>label\<close> is the text
  of \<^verbatim>\<open>name or ei+1\<close>. The result is the errors this set appends.
\<close>

fun validate_set :: "builtins \<Rightarrow> string \<Rightarrow> nat \<Rightarrow> json \<Rightarrow> py_error + string list" where
  "validate_set B label si (JDict kvs) =
     (case try_int B (dict_get kvs ''reps'') of
        Inl e \<Rightarrow> Inl e
      | Inr reps_int \<Rightarrow>
          (case try_float B (dict_get kvs ''weight'') of
             Inl e \<Rightarrow> Inl e
           | Inr weight_num \<Rightarrow>
               Inr ((if reps_int = None \<or> the reps_int < 1 then [reps_error label si] else [])
                  @ (if weight_num = None \<or> float_neg (the weight_num)
                     then [weight_error label si] else []))))"
| "validate_set B label si s = Inr [set_invalid_error label si]"

fun validate_sets :: "builtins \<Rightarrow> string \<Rightarrow> nat \<Rightarrow> json list \<Rightarrow> py_error + string list" where
  "validate_sets B label si [] = Inr []"
| "validate_sets B label si (s # ss) =
     (case validate_set B label si s of
        Inl e \<Rightarrow> Inl e
      | Inr errs \<Rightarrow>
          (case validate_sets B label (Suc si) ss of
             Inl e \<Rightarrow> Inl e
           | Inr errs' \<Rightarrow> Inr (errs @ errs')))"

definition exercise_invalid_error :: "nat \<Rightarrow> string" where
  "exercise_invalid_error ei = ''Exercise #'' @ show_nat (ei + 1) @ '' is invalid.''"

definition name_error :: "nat \<Rightarrow> string" where
  "name_error ei = ''Exercise #'' @ show_nat (ei + 1) @ '': name is required.''"

definition no_sets_error :: "string \<Rightarrow> string" where
  "no_sets_error label = ''Exercise '' @ quoted label @ '': at least one set is required.''"

definition exercise_name :: "builtins \<Rightarrow> (string \<times> json) list \<Rightarrow> string" where
  "exercise_name B kvs = strip (py_str B (py_or (dict_get kvs ''name'') (JStr [])))"

text \<open>The body of the outer loop for the exercise at 0-based index \<open>ei\<close>.\<close>

fun validate_exercise :: "builtins \<Rightarrow> nat \<Rightarrow> json \<Rightarrow> py_error + string list" where
  "validate_exercise B ei (JDict kvs) =
     (let name = exercise_name B kvs;
          label = (if name \<noteq> [] then name else show_nat (ei + 1));
          name_errs = (if name = [] then [name_error ei] else [])
      in case dict_get kvs ''sets'' of
           JList (s # ss) \<Rightarrow>
             (case validate_sets B label 0 (s # ss) of
                Inl e \<Rightarrow> Inl e
              | Inr errs \<Rightarrow> Inr (name_errs @ errs))
         | _ \<Rightarrow> Inr (name_errs @ [no_sets_error label]))"
| "validate_exercise B ei ex = Inr [exercise_invalid_error ei]"

fun validate_exercises :: "builtins \<Rightarrow> nat \<Rightarrow> json list \<Rightarrow> py_error + string list" where
  "validate_exercises B ei [] = Inr []"
| "validate_exercises B ei (ex # exs) =
     (case validate_exercise B ei ex of
        Inl e \<Rightarrow> Inl e
      | Inr errs \<Rightarrow>
          (case validate_exercises B (Suc ei) exs of
             Inl e \<Rightarrow> Inl e
           | Inr errs' \<Rightarrow> Inr (errs @ errs')))"

definition date_error :: string where
  "date_error = ''Workout date is required (YYYY-MM-DD).''"

definition no_exercises_error :: string where
  "no_exercises_error = ''At least one exercise is required.''"

text \<open>
  \<^verbatim>\<open>validate_workout_payload\<close>. A payload that is not a \<^verbatim>\<open>dict\<close> has no
  \<^verbatim>\<open>get\<close>: the first statement raises AttributeError.
\<close>

fun validate_workout_payload :: "builtins \<Rightarrow> json \<Rightarrow> py_error + string list" where
  "validate_workout_payload B (JDict kvs) =
     (let date_errs =
            (if parse_iso_date (dict_get kvs ''workout_date'') = None then [date_error] else [])
      in case dict_get kvs ''exercises'' of
           JList (ex # exs) \<Rightarrow>
             (case validate_exercises B 0 (ex # exs) of
                Inl e \<Rightarrow> Inl e
              | Inr errs \<Rightarrow> Inr (date_errs @ errs))
         | _ \<Rightarrow> Inr (date_errs @ [no_exercises_error]))"
| "validate_workout_payload B payload = Inl AttributeError"

subsection \<open>The store\<close>

text \<open>
  The three tables of \<^verbatim>\<open>init_db\<close>, each a list of rows in insertion order, and the
  \<^verbatim>\<open>sqlite_sequence\<close> counter that \<^verbatim>\<open>AUTOINCREMENT\<close> keeps for each table. An
  operation that raises inside \<^verbatim>\<open>with conn:\<close> is rolled back: its result is the
  error alone, and the store is the one it started from.
\<close>

record workout_row =
  w_id :: int
  w_date :: string
  w_title :: "string option"
  w_created :: string
  w_updated :: string

record exercise_row =
  e_id :: int
  e_workout_id :: int
  e_name :: string
  e_sort_order :: int

record set_row =
  s_id :: int
  s_exercise_id :: int
  s_set_number :: int
  s_reps :: int
  s_weight :: pyfloat

record db =
  workouts_tbl :: "workout_row list"
  exercises_tbl :: "exercise_row list"
  sets_tbl :: "set_row list"
  seq_workouts :: int
  seq_exercises :: int
  seq_sets :: int

definition empty_db :: db where
  "empty_db =
     \<lparr>workouts_tbl = [], exercises_tbl = [], sets_tbl = [],
      seq_workouts = 0, seq_exercises = 0, seq_sets = 0\<rparr>"

text \<open>
  A Python \<^verbatim>\<open>int\<close> bound to a statement must fit SQLite's 64-bit INTEGER; the
  \<^verbatim>\<open>sqlite3\<close> module raises OverflowError otherwise.
\<close>

definition in_int64 :: "int \<Rightarrow> bool" where
  "in_int64 n = (- (2 ^ 63) \<le> n \<and> n < 2 ^ 63)"

text \<open>
  \<^verbatim>\<open>INTEGER PRIMARY KEY AUTOINCREMENT\<close>: one more than the largest rowid the table
  holds or has ever held; no row can be added once the largest rowid has been used.
\<close>

definition next_rowid :: "int \<Rightarrow> int list \<Rightarrow> py_error + int" where
  "next_rowid seq ids =
     (let m = fold max ids seq in
      if 2 ^ 63 - 1 \<le> m then Inl OperationalError else Inr (m + 1))"

definition workout_ids :: "db \<Rightarrow> int list" where
  "workout_ids d = map w_id (workouts_tbl d)"

definition exercise_ids :: "db \<Rightarrow> int list" where
  "exercise_ids d = map e_id (exercises_tbl d)"

definition set_ids :: "db \<Rightarrow> int list" where
  "set_ids d = map s_id (sets_tbl d)"

definition exercises_of :: "db \<Rightarrow> int \<Rightarrow> exercise_row list" where
  "exercises_of d wid = filter (\<lambda>e. e_workout_id e = wid) (exercises_tbl d)"

definition sets_of :: "db \<Rightarrow> int \<Rightarrow> set_row list" where
  "sets_of d eid = filter (\<lambda>s. s_exercise_id s = eid) (sets_tbl d)"

text \<open>
  \<^verbatim>\<open>INSERT INTO workouts\<close>: \<^verbatim>\<open>workout_date\<close> is \<^verbatim>\<open>NOT NULL\<close>, and
  \<^verbatim>\<open>_parse_iso_date\<close> gives None (NULL) for a date it does not accept.
\<close>

definition insert_workout ::
  "db \<Rightarrow> string option \<Rightarrow> string option \<Rightarrow> string \<Rightarrow> string \<Rightarrow> py_error + (int \<times> db)" where
  "insert_workout d wdate title created updated =
     (case next_rowid (seq_workouts d) (workout_ids d) of
        Inl e \<Rightarrow> Inl e
      | Inr i \<Rightarrow>
          (case wdate of
             None \<Rightarrow> Inl IntegrityError
           | Some dt \<Rightarrow>
               Inr (i, d\<lparr>workouts_tbl := workouts_tbl d @
                            [\<lparr>w_id = i, w_date = dt, w_title = title,
                              w_created = created, w_updated = updated\<rparr>],
                          seq_workouts := i\<rparr>)))"

text \<open>\<^verbatim>\<open>INSERT INTO exercises\<close>, with the foreign key on \<^verbatim>\<open>workout_id\<close>.\<close>

definition insert_exercise :: "db \<Rightarrow> int \<Rightarrow> string \<Rightarrow> int \<Rightarrow> py_error + (int \<times> db)" where
  "insert_exercise d wid name sort_order =
     (if \<not> in_int64 wid \<or> \<not> in_int64 sort_order then Inl OverflowError
      else case next_rowid (seq_exercises d) (exercise_ids d) of
        Inl e \<Rightarrow> Inl e
      | Inr i \<Rightarrow>
          if wid \<notin> set (workout_ids d) then Inl IntegrityError
          else Inr (i, d\<lparr>exercises_tbl := exercises_tbl d @
                            [\<lparr>e_id = i, e_workout_id = wid, e_name = name,
                              e_sort_order = sort_order\<rparr>],
                          seq_exercises := i\<rparr>))"

text \<open>
  \<^verbatim>\<open>INSERT INTO sets\<close>: a NaN is stored as NULL, which \<^verbatim>\<open>NOT NULL\<close> refuses; then
  the two \<^verbatim>\<open>CHECK\<close> constraints and the foreign key on \<^verbatim>\<open>exercise_id\<close>.
\<close>

definition insert_set :: "db \<Rightarrow> int \<Rightarrow> int \<Rightarrow> int \<Rightarrow> pyfloat \<Rightarrow> py_error + db" where
  "insert_set d eid set_number reps weight =
     (if \<not> in_int64 eid \<or> \<not> in_int64 set_number \<or> \<not> in_int64 reps then Inl OverflowError
      else case next_rowid (seq_sets d) (set_ids d) of
        Inl e \<Rightarrow> Inl e
      | Inr i \<Rightarrow>
          if weight = NaN \<or> reps < 1 \<or> float_neg weight \<or> eid \<notin> set (exercise_ids d)
          then Inl IntegrityError
          else Inr (d\<lparr>sets_tbl := sets_tbl d @
                         [\<lparr>s_id = i, s_exercise_id = eid, s_set_number = set_number,
                           s_reps = reps, s_weight = weight\<rparr>],
                       seq_sets := i\<rparr>))"

text \<open>
  \<^verbatim>\<open>DELETE FROM exercises WHERE workout_id = ?\<close> and \<^verbatim>\<open>DELETE FROM workouts WHERE id = ?\<close>
  with \<^verbatim>\<open>PRAGMA foreign_keys = ON\<close>: \<^verbatim>\<open>ON DELETE CASCADE\<close> removes the sets of
  every exercise removed, and the exercises of every workout removed.
\<close>

definition delete_exercises_where :: "db \<Rightarrow> int \<Rightarrow> db" where
  "delete_exercises_where d wid =
     (let gone = map e_id (exercises_of d wid) in
      d\<lparr>exercises_tbl := filter (\<lambda>e. e_workout_id e \<noteq> wid) (exercises_tbl d),
        sets_tbl := filter (\<lambda>s. s_exercise_id s \<notin> set gone) (sets_tbl d)\<rparr>)"

definition delete_workout_where :: "db \<Rightarrow> int \<Rightarrow> db" where
  "delete_workout_where d wid =
     (let d' = delete_exercises_where d wid in
      d'\<lparr>workouts_tbl := filter (\<lambda>w. w_id w \<noteq> wid) (workouts_tbl d')\<rparr>)"

subsection \<open>Reading: \<^verbatim>\<open>list_workouts\<close> and \<^verbatim>\<open>get_workout\<close>\<close>

record summary =
  sm_id :: int
  sm_date :: string
  sm_title :: string
  sm_created :: string
  sm_updated :: string
  sm_exercise_count :: nat
  sm_set_count :: nat

record set_out =
  so_id :: int
  so_set_number :: int
  so_reps :: int
  so_weight :: pyfloat

record exercise_out =
  eo_id :: int
  eo_name :: string
  eo_sort_order :: int
  eo_sets :: "set_out list"

record workout_out =
  wo_id :: int
  wo_date :: string
  wo_title :: string
  wo_created :: string
  wo_updated :: string
  wo_exercises :: "exercise_out list"

text \<open>\<^verbatim>\<open>COALESCE(title, '')\<close>.\<close>

definition coalesce_title :: "string option \<Rightarrow> string" where
  "coalesce_title t = (case t of None \<Rightarrow> [] | Some s \<Rightarrow> s)"

text \<open>
  The row that \<^verbatim>\<open>GROUP BY w.id\<close> gives for a workout over the two left joins:
  \<^verbatim>\<open>COUNT(DISTINCT e.id)\<close> counts the ids of the joined exercises, \<^verbatim>\<open>COUNT(s.id)\<close>
  the joined rows that carry a set. The primary key keeps one workout row in each group.
\<close>

definition summary_of :: "db \<Rightarrow> workout_row \<Rightarrow> summary" where
  "summary_of d w =
     \<lparr>sm_id = w_id w, sm_date = w_date w, sm_title = coalesce_title (w_title w),
      sm_created = w_created w, sm_updated = w_updated w,
      sm_exercise_count = length (remdups (map e_id (exercises_of d (w_id w)))),
      sm_set_count = sum_list (map (\<lambda>e. length (sets_of d (e_id e))) (exercises_of d (w_id w)))\<rparr>"

text \<open>
  \<^verbatim>\<open>ORDER BY w.workout_date DESC, w.id DESC\<close>; the dates are TEXT, compared
  character by character.
\<close>

definition list_workouts :: "db \<Rightarrow> summary list" where
  "list_workouts d =
     rev (sort_key (\<lambda>r. (sm_date r, sm_id r)) (map (summary_of d) (workouts_tbl d)))"

definition set_out_of :: "set_row \<Rightarrow> set_out" where
  "set_out_of s =
     \<lparr>so_id = s_id s, so_set_number = s_set_number s, so_reps = s_reps s, so_weight = s_weight s\<rparr>"

definition exercise_out_of :: "db \<Rightarrow> exercise_row \<Rightarrow> exercise_out" where
  "exercise_out_of d e =
     \<lparr>eo_id = e_id e, eo_name = e_name e, eo_sort_order = e_sort_order e,
      eo_sets = map set_out_of
                  (sort_key (\<lambda>s. (s_set_number s, s_id s)) (sets_of d (e_id e)))\<rparr>"

definition get_workout :: "db \<Rightarrow> int \<Rightarrow> py_error + workout_out option" where
  "get_workout d workout_id =
     (if \<not> in_int64 workout_id then Inl OverflowError
      else case find (\<lambda>w. w_id w = workout_id) (workouts_tbl d) of
        None \<Rightarrow> Inr None
      | Some w \<Rightarrow>
          Inr (Some
            \<lparr>wo_id = w_id w, wo_date = w_date w, wo_title = coalesce_title (w_title w),
             wo_created = w_created w, wo_updated = w_updated w,
             wo_exercises =
               map (exercise_out_of d)
                 (sort_key (\<lambda>e. (e_sort_order e, e_id e)) (exercises_of d workout_id))\<rparr>))"

subsection \<open>Writing: \<^verbatim>\<open>create_workout\<close>, \<^verbatim>\<open>update_workout\<close>, \<^verbatim>\<open>delete_workout\<close>\<close>

text \<open>\<^verbatim>\<open>(payload.get("title") or "").strip() or None\<close>: only a \<^verbatim>\<open>str\<close> has \<^verbatim>\<open>strip\<close>.\<close>

definition title_param :: "(string \<times> json) list \<Rightarrow> py_error + string option" where
  "title_param kvs =
     (case py_or (dict_get kvs ''title'') (JStr []) of
        JStr s \<Rightarrow> Inr (if strip s = [] then None else Some (strip s))
      | _ \<Rightarrow> Inl AttributeError)"

text \<open>
  The inner loop: \<^verbatim>\<open>int(s["reps"])\<close> and \<^verbatim>\<open>float(s["weight"])\<close> are evaluated in this
  order, then the row is inserted with the running \<^verbatim>\<open>set_number\<close>.
\<close>

definition insert_set_from :: "builtins \<Rightarrow> int \<Rightarrow> int \<Rightarrow> json \<Rightarrow> db \<Rightarrow> py_error + db" where
  "insert_set_from B eid set_number s d =
     (case py_getitem s ''reps'' of Inl e \<Rightarrow> Inl e | Inr rv \<Rightarrow>
      case py_int B rv of Inl e \<Rightarrow> Inl e | Inr reps \<Rightarrow>
      case py_getitem s ''weight'' of Inl e \<Rightarrow> Inl e | Inr wv \<Rightarrow>
      case py_float B wv of Inl e \<Rightarrow> Inl e | Inr weight \<Rightarrow>
        insert_set d eid set_number reps weight)"

fun insert_sets :: "builtins \<Rightarrow> int \<Rightarrow> int \<Rightarrow> json list \<Rightarrow> db \<Rightarrow> py_error + db" where
  "insert_sets B eid set_number [] d = Inr d"
| "insert_sets B eid set_number (s # ss) d =
     (case insert_set_from B eid set_number s d of
        Inl e \<Rightarrow> Inl e
      | Inr d' \<Rightarrow> insert_sets B eid (set_number + 1) ss d')"

text \<open>The body of the outer loop: one exercise row, then its sets numbered from 1.\<close>

definition insert_exercise_from :: "builtins \<Rightarrow> int \<Rightarrow> int \<Rightarrow> json \<Rightarrow> db \<Rightarrow> py_error + db" where
  "insert_exercise_from B wid sort_order ex d =
     (case py_getitem ex ''name'' of Inl e \<Rightarrow> Inl e | Inr nv \<Rightarrow>
      case insert_exercise d wid (strip (py_str B nv)) sort_order of Inl e \<Rightarrow> Inl e
      | Inr (eid, d1) \<Rightarrow>
      case py_getitem ex ''sets'' of Inl e \<Rightarrow> Inl e | Inr sv \<Rightarrow>
      case py_iter sv of Inl e \<Rightarrow> Inl e | Inr ss \<Rightarrow>
        insert_sets B eid 1 ss d1)"

fun insert_exercises :: "builtins \<Rightarrow> int \<Rightarrow> int \<Rightarrow> json list \<Rightarrow> db \<Rightarrow> py_error + db" where
  "insert_exercises B wid sort_order [] d = Inr d"
| "insert_exercises B wid sort_order (ex # exs) d =
     (case insert_exercise_from B wid sort_order ex d of
        Inl e \<Rightarrow> Inl e
      | Inr d' \<Rightarrow> insert_exercises B wid (sort_order + 1) exs d')"

text \<open>
  \<^verbatim>\<open>exercises = payload["exercises"]\<close> and the loop over it, shared by create and
  update.
\<close>

definition insert_payload_exercises ::
  "builtins \<Rightarrow> int \<Rightarrow> (string \<times> json) list \<Rightarrow> db \<Rightarrow> py_error + db" where
  "insert_payload_exercises B wid kvs d =
     (case py_getitem (JDict kvs) ''exercises'' of Inl e \<Rightarrow> Inl e | Inr xv \<Rightarrow>
      case py_iter xv of Inl e \<Rightarrow> Inl e | Inr exs \<Rightarrow>
        insert_exercises B wid 1 exs d)"

text \<open>
  \<^verbatim>\<open>create_workout\<close>; \<open>now\<close> is the timestamp the function computes from the clock.
  The result is the new id and the store after the commit.
\<close>

fun create_workout :: "builtins \<Rightarrow> string \<Rightarrow> db \<Rightarrow> json \<Rightarrow> py_error + (int \<times> db)" where
  "create_workout B now d (JDict kvs) =
     (case py_getitem (JDict kvs) ''workout_date'' of Inl e \<Rightarrow> Inl e | Inr dv \<Rightarrow>
      case title_param kvs of Inl e \<Rightarrow> Inl e | Inr title \<Rightarrow>
      case insert_workout d (parse_iso_date dv) title now now of Inl e \<Rightarrow> Inl e
      | Inr (wid, d1) \<Rightarrow>
      case insert_payload_exercises B wid kvs d1 of Inl e \<Rightarrow> Inl e
      | Inr d2 \<Rightarrow> Inr (wid, d2))"
| "create_workout B now d payload = Inl TypeError"

text \<open>\<^verbatim>\<open>UPDATE workouts SET workout_date = ?, title = ?, updated_at = ? WHERE id = ?\<close>.\<close>

definition update_workout_row ::
  "db \<Rightarrow> int \<Rightarrow> string option \<Rightarrow> string option \<Rightarrow> string \<Rightarrow> py_error + db" where
  "update_workout_row d wid wdate title updated =
     (case wdate of
        None \<Rightarrow> Inl IntegrityError
      | Some dt \<Rightarrow>
          Inr (d\<lparr>workouts_tbl :=
                   map (\<lambda>w. if w_id w = wid
                             then w\<lparr>w_date := dt, w_title := title, w_updated := updated\<rparr>
                             else w)
                     (workouts_tbl d)\<rparr>))"

text \<open>
  \<^verbatim>\<open>update_workout\<close>: the result is the flag returned and the store after the
  commit; \<^verbatim>\<open>return False\<close> leaves the \<^verbatim>\<open>with\<close> block before any write.
\<close>

definition update_workout ::
  "builtins \<Rightarrow> string \<Rightarrow> db \<Rightarrow> int \<Rightarrow> json \<Rightarrow> py_error + (bool \<times> db)" where
  "update_workout B now d workout_id payload =
     (if \<not> in_int64 workout_id then Inl OverflowError
      else if workout_id \<notin> set (workout_ids d) then Inr (False, d)
      else case payload of
        JDict kvs \<Rightarrow>
          (case py_getitem (JDict kvs) ''workout_date'' of Inl e \<Rightarrow> Inl e | Inr dv \<Rightarrow>
           case title_param kvs of Inl e \<Rightarrow> Inl e | Inr title \<Rightarrow>
           case update_workout_row d workout_id (parse_iso_date dv) title now of Inl e \<Rightarrow> Inl e
           | Inr d1 \<Rightarrow>
           case insert_payload_exercises B workout_id kvs (delete_exercises_where d1 workout_id) of
             Inl e \<Rightarrow> Inl e
           | Inr d2 \<Rightarrow> Inr (True, d2))
      | _ \<Rightarrow> Inl TypeError)"

text \<open>\<^verbatim>\<open>delete_workout\<close>: \<^verbatim>\<open>cur.rowcount > 0\<close> when a workout row had the id.\<close>

definition delete_workout :: "db \<Rightarrow> int \<Rightarrow> py_error + (bool \<times> db)" where
  "delete_workout d workout_id =
     (if \<not> in_int64 workout_id then Inl OverflowError
      else Inr (workout_id \<in> set (workout_ids d), delete_workout_where d workout_id))"

text \<open>The stores the three writing operations can produce from the empty one.\<close>

inductive reachable :: "db \<Rightarrow> bool" where
  reach_init: "reachable empty_db"
| reach_create: "reachable d \<Longrightarrow> create_workout B now d payload = Inr (wid, d') \<Longrightarrow> reachable d'"
| reach_update: "reachable d \<Longrightarrow> update_workout B now d wid payload = Inr (b, d') \<Longrightarrow> reachable d'"
| reach_delete: "reachable d \<Longrightarrow> delete_workout d wid = Inr (b, d') \<Longrightarrow> reachable d'"

subsection \<open>Predicates used to state the properties\<close>

text \<open>
  \<open>nonempty_list\<close> is the test \<^verbatim>\<open>isinstance(x, list) and len(x) > 0\<close>. A payload is
  \<open>no_overflow\<close> when no conversion the validator attempts on it raises OverflowError:
  no \<^verbatim>\<open>reps\<close> it reads is an infinite float, no \<^verbatim>\<open>weight\<close> an integer beyond the
  range of a float.
\<close>

fun nonempty_list :: "json \<Rightarrow> bool" where
  "nonempty_list (JList (x # xs)) = True"
| "nonempty_list _ = False"

definition no_overflow_set :: "builtins \<Rightarrow> json \<Rightarrow> bool" where
  "no_overflow_set B s =
     (case s of
        JDict kvs \<Rightarrow> py_int B (dict_get kvs ''reps'') \<noteq> Inl OverflowError \<and>
                     py_float B (dict_get kvs ''weight'') \<noteq> Inl OverflowError
      | _ \<Rightarrow> True)"

definition no_overflow_exercise :: "builtins \<Rightarrow> json \<Rightarrow> bool" where
  "no_overflow_exercise B ex =
     (case ex of
        JDict kvs \<Rightarrow> (case dict_get kvs ''sets'' of
                        JList ss \<Rightarrow> list_all (no_overflow_set B) ss
                      | _ \<Rightarrow> True)
      | _ \<Rightarrow> True)"

definition no_overflow :: "builtins \<Rightarrow> (string \<times> json) list \<Rightarrow> bool" where
  "no_overflow B kvs =
     (case dict_get kvs ''exercises'' of
        JList exs \<Rightarrow> list_all (no_overflow_exercise B) exs
      | _ \<Rightarrow> True)"

subsection \<open>Example values\<close>

text \<open>
  An instance of the runtime conversions for the examples: it reads the texts that are
  plain decimal integers, with an optional sign and surrounding whitespace, as CPython
  does, and prints \<^verbatim>\<open>None\<close>, the booleans and the integers; other texts and values
  are outside of it (no number, the empty text).
\<close>

definition digits_nat :: "string \<Rightarrow> nat option" where
  "digits_nat s =
     (if s \<noteq> [] \<and> list_all is_digit s
      then Some (foldl (\<lambda>a c. 10 * a + digit_val c) 0 s) else None)"

definition decimal_int :: "string \<Rightarrow> int option" where
  "decimal_int s =
     (case strip s of
        [] \<Rightarrow> None
      | c # r \<Rightarrow>
          if c = CHR ''-'' then map_option (\<lambda>n. - int n) (digits_nat r)
          else if c = CHR ''+'' then map_option int (digits_nat r)
          else map_option int (digits_nat (c # r)))"

definition decimal_float :: "string \<Rightarrow> pyfloat option" where
  "decimal_float s =
     (case decimal_int s of
        None \<Rightarrow> None
      | Some n \<Rightarrow>
          (case float_of_int n of
             Inr f \<Rightarrow> Some f
           | Inl e \<Rightarrow> Some (if n < 0 then NInf else PInf)))"

fun plain_str :: "json \<Rightarrow> string" where
  "plain_str JNull = ''None''"
| "plain_str (JBool b) = (if b then ''True'' else ''False'')"
| "plain_str (JInt n) = (if n < 0 then ''-'' @ show_nat (nat (- n)) else show_nat (nat n))"
| "plain_str v = []"

definition example_builtins :: builtins where
  "example_builtins =
     \<lparr>int_of_str = decimal_int, float_of_str = decimal_float, str_of_value = plain_str\<rparr>"

definition squat_exercise :: "json \<Rightarrow> json \<Rightarrow> json" where
  "squat_exercise reps weight =
     JDict [(''name'', JStr ''Squat''),
            (''sets'', JList [JDict [(''reps'', reps), (''weight'', weight)]])]"

definition leg_day :: json where
  "leg_day =
     JDict [(''workout_date'', JStr ''2024-01-15''), (''title'', JStr ''Leg Day''),
            (''exercises'', JList [squat_exercise (JInt 5) (JInt 225)])]"



section \<open>The validator\<close>

subsection \<open>When the validator returns\<close>

lemma py_int_errors: "py_int B v = Inl e \<Longrightarrow> e = TypeError \<or> e = ValueError \<or> e = OverflowError"
  by (induction B v rule: py_int.induct) (auto split: option.splits)

lemma float_of_int_errors: "float_of_int n = Inl e \<Longrightarrow> e = OverflowError"
  by (auto simp: float_of_int_def Let_def split: if_splits)

lemma py_float_errors: "py_float B v = Inl e \<Longrightarrow> e = TypeError \<or> e = ValueError \<or> e = OverflowError"
  by (induction B v rule: py_float.induct) (auto split: option.splits dest: float_of_int_errors)

lemma try_int_returns: "py_int B v \<noteq> Inl OverflowError \<Longrightarrow> \<exists>r. try_int B v = Inr r"
  by (cases "py_int B v") (auto simp: try_int_def dest: py_int_errors)

lemma try_float_returns: "py_float B v \<noteq> Inl OverflowError \<Longrightarrow> \<exists>r. try_float B v = Inr r"
  by (cases "py_float B v") (auto simp: try_float_def dest: py_float_errors)

lemma validate_set_returns:
  "no_overflow_set B s \<Longrightarrow> \<exists>errs. validate_set B label si s = Inr errs"
proof (cases s)
  case (JDict kvs)
  assume "no_overflow_set B s"
  with JDict obtain r w where "try_int B (dict_get kvs ''reps'') = Inr r"
    and "try_float B (dict_get kvs ''weight'') = Inr w"
    using try_int_returns try_float_returns by (fastforce simp: no_overflow_set_def)
  with JDict show ?thesis by simp
qed simp_all

lemma validate_sets_returns:
  "list_all (no_overflow_set B) ss \<Longrightarrow> \<exists>errs. validate_sets B label si ss = Inr errs"
proof (induction ss arbitrary: si)
  case Nil
  then show ?case by simp
next
  case (Cons s ss)
  then obtain e1 e2 where "validate_set B label si s = Inr e1"
    and "validate_sets B label (Suc si) ss = Inr e2"
    using validate_set_returns by (fastforce)
  then show ?case by simp
qed

lemma validate_exercise_returns:
  assumes "no_overflow_exercise B ex"
  shows "\<exists>errs. validate_exercise B ei ex = Inr errs"
proof (cases ex)
  case (JDict kvs)
  show ?thesis
  proof (cases "dict_get kvs ''sets''")
    case (JList ss)
    with assms JDict have "list_all (no_overflow_set B) ss"
      by (simp add: no_overflow_exercise_def)
    then obtain errs where
      "validate_sets B (if exercise_name B kvs \<noteq> [] then exercise_name B kvs
                        else show_nat (ei + 1)) 0 ss = Inr errs"
      using validate_sets_returns by blast
    with JDict JList show ?thesis
      by (cases ss) (auto simp: Let_def)
  qed (use JDict in \<open>simp_all add: Let_def\<close>)
qed simp_all

lemma validate_exercises_returns:
  "list_all (no_overflow_exercise B) exs \<Longrightarrow> \<exists>errs. validate_exercises B ei exs = Inr errs"
proof (induction exs arbitrary: ei)
  case Nil
  then show ?case by simp
next
  case (Cons ex exs)
  then obtain e1 e2 where "validate_exercise B ei ex = Inr e1"
    and "validate_exercises B (Suc ei) exs = Inr e2"
    using validate_exercise_returns by fastforce
  then show ?case by simp
qed

lemma floorlog_ge:
  assumes "2 ^ k \<le> m"
  shows "k < floorlog 2 m"
proof -
  from assms have "0 < m" by (cases "m = 0") auto
  then have "m < 2 ^ floorlog 2 m" using floorlog_bounds [of m 2] by simp
  with assms have "(2::nat) ^ k < 2 ^ floorlog 2 m" by (rule le_less_trans)
  then show ?thesis by simp
qed

lemma round_to_double_ge:
  assumes "0 < m"
  shows "2 ^ (floorlog 2 m - 1) \<le> round_to_double m"
proof (cases "floorlog 2 m \<le> 53")
  case True
  with floorlog_bounds [of m 2] assms show ?thesis
    by (simp add: round_to_double_def)
next
  case False
  define b where "b = floorlog 2 m"
  define sh where "sh = b - 53"
  from False have b: "53 < b" by (simp add: b_def)
  have lo: "2 ^ (b - 1) \<le> m"
    using floorlog_bounds [of m 2] assms by (simp add: b_def)
  have e: "b - 1 = 52 + sh" using b by (simp add: sh_def)
  have split: "(2::nat) ^ (b - 1) = 2 ^ 52 * 2 ^ sh"
    unfolding e by (rule power_add)
  with lo have "2 ^ 52 * 2 ^ sh \<le> m" by simp
  then have q: "2 ^ 52 \<le> m div 2 ^ sh"
    by (simp add: less_eq_div_iff_mult_less_eq)
  note split
  also have "2 ^ 52 * 2 ^ sh \<le> (m div 2 ^ sh) * 2 ^ sh" using q by simp
  also have "\<dots> \<le> round_to_double m"
    using False by (simp add: round_to_double_def Let_def b_def sh_def)
  finally show ?thesis by (simp add: b_def)
qed

lemma float_of_int_overflow:
  assumes "2 ^ 1024 \<le> \<bar>n\<bar>"
  shows "float_of_int n = Inl OverflowError"
proof -
  define m where "m = nat \<bar>n\<bar>"
  from assms have m: "2 ^ 1024 \<le> m" by (simp add: m_def le_nat_iff)
  then have pos: "0 < m" by (cases "m = 0") auto
  from floorlog_ge [OF m] have "1024 \<le> floorlog 2 m - 1" by simp
  then have "(2::nat) ^ 1024 \<le> 2 ^ (floorlog 2 m - 1)"
    by (rule power_increasing) simp
  also have "\<dots> \<le> round_to_double m" by (rule round_to_double_ge [OF pos])
  finally show ?thesis by (simp add: float_of_int_def Let_def m_def)
qed


text \<open>
  Claim C4 (amended). The validator returns a list of error strings, without raising, for
  every payload that is a \<^verbatim>\<open>dict\<close>, whatever the types of its fields, provided that
  no \<^verbatim>\<open>reps\<close> it converts is an infinite float and no \<^verbatim>\<open>weight\<close> an integer too
  large for a float. It has no state to change: it is a function of the payload.
\<close>

theorem validator_returns_on_dict:
  assumes "no_overflow B kvs"
  shows "\<exists>errs. validate_workout_payload B (JDict kvs) = Inr errs"
proof (cases "dict_get kvs ''exercises''")
  case (JList exs)
  with assms have "list_all (no_overflow_exercise B) exs"
    by (simp add: no_overflow_def)
  then obtain errs where "validate_exercises B 0 exs = Inr errs"
    using validate_exercises_returns by blast
  with JList show ?thesis
    by (cases exs) (auto simp: Let_def)
qed (simp_all add: Let_def)

theorem validator_returns_on_dict_witness:
  "no_overflow example_builtins
     [(''workout_date'', JInt 7), (''exercises'', JList [JNull, squat_exercise (JStr ''x'') JNull])] \<and>
   (\<exists>errs. validate_workout_payload example_builtins
      (JDict [(''workout_date'', JInt 7),
              (''exercises'', JList [JNull, squat_exercise (JStr ''x'') JNull])]) = Inr errs)"
proof -
  have h: "no_overflow example_builtins
     [(''workout_date'', JInt 7), (''exercises'', JList [JNull, squat_exercise (JStr ''x'') JNull])]"
    by code_simp
  from validator_returns_on_dict [OF h] h show ?thesis by simp
qed

text \<open>
  A payload that is not a \<^verbatim>\<open>dict\<close> has no \<^verbatim>\<open>get\<close> method: the validator raises
  AttributeError on it.
\<close>

theorem validator_raises_counterexample:
  "validate_workout_payload example_builtins (JList [JInt 1]) = Inl AttributeError"
  by simp

text \<open>
  Claim C2 (the code at its failing input). The payload has a set with \<^verbatim>\<open>reps\<close> 0,
  less than 1, so the validator is to return an error; its \<^verbatim>\<open>weight\<close> is the integer
  \<open>2 ^ 1024\<close>, on which \<^verbatim>\<open>float\<close> raises OverflowError, which the \<^verbatim>\<open>except\<close> clause
  of the validator does not name: the validator raises and returns no list.
\<close>

theorem validate_raises_on_large_weight:
  "validate_workout_payload B
     (JDict [(''workout_date'', JStr ''2024-01-15''),
             (''exercises'', JList [squat_exercise (JInt 0) (JInt (2 ^ 1024))])])
   = Inl OverflowError"
proof -
  have "float_of_int (2 ^ 1024) = Inl OverflowError"
    by (rule float_of_int_overflow) simp
  then show ?thesis
    by (simp add: squat_exercise_def dict_get_def try_int_def try_float_def Let_def)
qed

subsection \<open>The check of \<^verbatim>\<open>exercises\<close>\<close>

text \<open>
  Claim C8 (amended). For every \<^verbatim>\<open>dict\<close> payload whose \<^verbatim>\<open>exercises\<close> field is
  missing, not a list, or empty, the validator returns at once, with no check of any
  exercise or set: the list it returns is the date error, when the date is not accepted,
  followed by the single error \<^verbatim>\<open>At least one exercise is required.\<close>
\<close>

theorem exercises_short_circuit:
  assumes "\<not> nonempty_list (dict_get kvs ''exercises'')"
  shows "validate_workout_payload B (JDict kvs) =
           Inr ((if parse_iso_date (dict_get kvs ''workout_date'') = None then [date_error] else [])
                @ [no_exercises_error])"
proof (cases "dict_get kvs ''exercises''")
  case (JList exs)
  with assms show ?thesis by (cases exs) (simp_all add: Let_def)
qed (simp_all add: Let_def)

theorem exercises_short_circuit_witness:
  "\<not> nonempty_list (dict_get [(''workout_date'', JStr ''2024-01-15''), (''exercises'', JList [])] ''exercises'') \<and>
   validate_workout_payload example_builtins
     (JDict [(''workout_date'', JStr ''2024-01-15''), (''exercises'', JList [])])
   = Inr [''At least one exercise is required.'']"
proof -
  have h: "\<not> nonempty_list (dict_get [(''workout_date'', JStr ''2024-01-15''), (''exercises'', JList [])] ''exercises'')"
    by (simp add: dict_get_def)
  have d: "parse_iso_date (dict_get [(''workout_date'', JStr ''2024-01-15''), (''exercises'', JList [])] ''workout_date'')
             = Some ''2024-01-15''"
    by code_simp
  from exercises_short_circuit [OF h, of example_builtins] h d show ?thesis
    by (simp add: no_exercises_error_def)
qed

text \<open>With no date either, the list returned has two errors.\<close>

theorem single_error_counterexample:
  "validate_workout_payload example_builtins (JDict [(''exercises'', JList [])])
   = Inr [''Workout date is required (YYYY-MM-DD).'', ''At least one exercise is required.'']"
  by (simp add: dict_get_def date_error_def no_exercises_error_def)

end
